theory Spec2Isabelle
  imports Main "HOL-Library.Word"
begin

section \<open>The media port of the SIP bridge\<close>

text \<open>
  The development embeds the current revision of \<^verbatim>\<open>media_port.go\<close> (the one with
  \<^verbatim>\<open>PortStats\<close>, the timeout watchdog and \<^verbatim>\<open>maxErrors\<close>). Go's goroutines are
  modelled by what each loop does with the sequence of results its blocking calls
  return: a loop is a recursive function over that sequence, and running out of the
  sequence means that the loop is blocked in its next call. Objects of the collaborating
  packages (sessions, streams, PCM writers, handlers) are symbolic: a value records
  how the object was built, and a list in the state records which of them were closed.
\<close>

subsection \<open>Basic types\<close>

type_synonym u64 = "64 word"
type_synonym byte = "8 word"

text \<open>Errors returned by the port, and the one run-time panic it can raise.\<close>

datatype error =
    ErrAlreadyClosed        \<comment> \<open>\<^verbatim>\<open>errors.New("media is already closed")\<close>\<close>
  | ErrExternal string      \<comment> \<open>an error value handed back by a collaborator\<close>

datatype panic = NilPointerDereference

datatype level = Debugw | Infow | Warnw | Errorw

type_synonym log_entry = "level \<times> string"

text \<open>
  \<^verbatim>\<open>netip.AddrPort\<close>: an address and a port. The zero \<^verbatim>\<open>netip.Addr\<close> is the
  only invalid address; every port is valid.
\<close>

datatype Addr = AddrZero | IPv4 "32 word" | IPv6 "128 word"

record AddrPort =
  ap_addr :: Addr
  ap_port :: "16 word"

definition IsValid :: "AddrPort \<Rightarrow> bool" where
  "IsValid a = (ap_addr a \<noteq> AddrZero)"

subsection \<open>The UDP channel\<close>

text \<open>
  \<^verbatim>\<open>udpConn\<close> wraps the socket and two atomic pointers. \<open>sent\<close> lists the calls
  of \<^verbatim>\<open>WriteToUDPAddrPort\<close> made on the wrapped socket, \<open>conn_closed\<close> says
  whether the socket was closed, \<open>conn_log\<close> what the channel logged.
\<close>

record udpConn =
  src :: "AddrPort option"
  dst :: "AddrPort option"
  sent :: "(byte list \<times> AddrPort) list"
  conn_closed :: bool
  conn_log :: "log_entry list"

definition newUDPConn :: udpConn where
  "newUDPConn = \<lparr>src = None, dst = None, sent = [], conn_closed = False, conn_log = []\<rparr>"

definition GetSrc :: "udpConn \<Rightarrow> AddrPort \<times> bool" where
  "GetSrc c =
     (case src c of
        None \<Rightarrow> (\<lparr>ap_addr = AddrZero, ap_port = 0\<rparr>, False)
      | Some addr \<Rightarrow> (addr, IsValid addr))"

definition SetDst :: "AddrPort \<Rightarrow> udpConn \<Rightarrow> udpConn" where
  "SetDst addr c =
     (if IsValid addr then
        (let prev = dst c;
             c1 = c\<lparr>dst := Some addr\<rparr>
         in if (case prev of None \<Rightarrow> True | Some pv \<Rightarrow> \<not> IsValid pv) then
              c1\<lparr>conn_log := conn_log c1 @ [(Infow, ''setting media destination'')]\<rparr>
            else if prev \<noteq> Some addr then
              c1\<lparr>conn_log := conn_log c1 @ [(Infow, ''changing media destination'')]\<rparr>
            else c1)
      else c)"

text \<open>
  \<^verbatim>\<open>Read\<close>: the triple is what \<^verbatim>\<open>ReadFromUDPAddrPort\<close> returned. The peer
  address is stored whether or not the read failed.
\<close>

definition Read :: "int \<times> AddrPort \<times> error option \<Rightarrow> udpConn \<Rightarrow> (int \<times> error option) \<times> udpConn" where
  "Read res c =
     (case res of (n, addr, err) \<Rightarrow>
        (let prev = src c;
             c1 = c\<lparr>src := Some addr\<rparr>;
             c2 = (if (case prev of None \<Rightarrow> True | Some pv \<Rightarrow> \<not> IsValid pv) then
                     c1\<lparr>conn_log := conn_log c1 @ [(Infow, ''setting media source'')]\<rparr>
                   else if prev \<noteq> Some addr then
                     c1\<lparr>conn_log := conn_log c1 @ [(Infow, ''changing media source'')]\<rparr>
                   else c1)
         in ((n, err), c2)))"

text \<open>
  \<^verbatim>\<open>Write\<close>: \<open>sock\<close> is the answer of the socket's \<^verbatim>\<open>WriteToUDPAddrPort\<close> to a
  datagram and a destination.
\<close>

definition Write :: "(byte list \<Rightarrow> AddrPort \<Rightarrow> int \<times> error option) \<Rightarrow> byte list \<Rightarrow> udpConn
    \<Rightarrow> (int \<times> error option) \<times> udpConn" where
  "Write sock b c =
     (case dst c of
        None \<Rightarrow> ((int (length b), None), c)
      | Some d \<Rightarrow> (sock b d, c\<lparr>sent := sent c @ [(b, d)]\<rparr>))"

definition conn_Close :: "udpConn \<Rightarrow> udpConn" where
  "conn_Close c = c\<lparr>conn_closed := True\<rparr>"

subsection \<open>Configuration and the objects of the collaborating packages\<close>

type_synonym Time = int       \<comment> \<open>an instant, in nanoseconds\<close>
type_synonym Duration = int   \<comment> \<open>\<^verbatim>\<open>time.Duration\<close>: nanoseconds in an int64\<close>

record CodecInfo =
  SDPName :: string
  RTPClockRate :: int

record AudioConfig =
  Codec :: CodecInfo
  Type :: byte
  DTMFType :: byte

text \<open>
  \<^verbatim>\<open>MediaConf\<close> embeds \<^verbatim>\<open>sdp.MediaConfig\<close>; the fields are those the port reads.
  \<open>Crypto\<close> is the pointer to the SRTP configuration (by its profile name),
  \<open>Processor\<close> the optional function value (by identity).
\<close>

record MediaConf =
  Remote :: AddrPort
  Audio :: AudioConfig
  Crypto :: "string option"
  Processor :: "nat option"

record PortStats =
  Streams :: u64
  Packets :: u64
  IgnoredPackets :: u64
  InputPackets :: u64
  MuxPackets :: u64
  MuxBytes :: u64
  AudioPackets :: u64
  AudioBytes :: u64
  DTMFPackets :: u64
  DTMFBytes :: u64

definition zeroStats :: PortStats where
  "zeroStats = \<lparr>Streams = 0, Packets = 0, IgnoredPackets = 0, InputPackets = 0,
     MuxPackets = 0, MuxBytes = 0, AudioPackets = 0, AudioBytes = 0,
     DTMFPackets = 0, DTMFBytes = 0\<rparr>"

record MediaOptions =
  IP :: Addr
  Ports :: "int \<times> int"
  MediaTimeoutInitial :: Duration
  MediaTimeout :: Duration
  Stats :: "PortStats option"
  EnableJitterBuffer :: bool

definition zeroOptions :: MediaOptions where
  "zeroOptions = \<lparr>IP = AddrZero, Ports = (0, 0), MediaTimeoutInitial = 0, MediaTimeout = 0,
     Stats = None, EnableJitterBuffer = False\<rparr>"

definition Second :: Duration where
  "Second = 1000000000"

text \<open>
  An RTP session in the store of sessions: whether it is an SRTP session, and whether
  \<^verbatim>\<open>Close\<close> was called on it. The port refers to a session by its index in the store.
\<close>

record Session =
  secure :: bool
  sess_closed :: bool

text \<open>
  An outbound stream of the sequencing writer built over the write stream of a session:
  the session, the payload type and the clock rate.
\<close>

datatype Stream = Stream nat byte int

text \<open>
  PCM writers: one supplied by a caller, the result of applying a processor, the encoder
  of a codec over a stream, and the n-th input of the mixer built over a writer.
\<close>

datatype PCM16Writer =
    External nat
  | Processed nat PCM16Writer
  | EncodeRTP CodecInfo Stream
  | MixerInput PCM16Writer nat

text \<open>
  Modelled from the spec: \<^verbatim>\<open>msdk.SwitchWriter\<close>, the switch writer of the media SDK,
  is declared outside this file. It is an atomic slot holding a PCM writer, with a
  configured sample rate; \<^verbatim>\<open>Swap\<close> replaces the target and returns the prior one,
  \<^verbatim>\<open>Disable\<close> and \<^verbatim>\<open>Enable\<close> turn the writes off and on.
\<close>

record SwitchWriter =
  sw_sampleRate :: int
  sw_target :: "PCM16Writer option"
  sw_disabled :: bool

definition NewSwitchWriter :: "int \<Rightarrow> SwitchWriter" where
  "NewSwitchWriter sampleRate = \<lparr>sw_sampleRate = sampleRate, sw_target = None, sw_disabled = False\<rparr>"

definition Swap :: "PCM16Writer option \<Rightarrow> SwitchWriter \<Rightarrow> PCM16Writer option \<times> SwitchWriter" where
  "Swap w s = (sw_target s, s\<lparr>sw_target := w\<rparr>)"

text \<open>
  The inbound handler chain published by \<^verbatim>\<open>setupInput\<close>: the audio arm of the mux
  (payload type and codec), the DTMF arm when there is one, and whether the chain is
  wrapped into the jitter buffer.
\<close>

datatype Handler = DecodeRTP CodecInfo byte

datatype HandlerCloser = Mux byte Handler "byte option" bool

datatype Task = TimeoutLoop | RtpLoop nat

subsection \<open>The media port\<close>

text \<open>
  The fields of \<^verbatim>\<open>MediaPort\<close>. The fuses \<open>mediaReceived\<close> and \<open>closed\<close> are
  booleans (broken or not), \<open>mediaTimeout\<close> says whether the timeout channel was
  closed, \<open>timeoutReset\<close> whether the channel of capacity one holds a token. The atomic
  pointers are options. \<open>sess\<close> is an index into \<open>sessions\<close>. The last four fields
  are not fields of the Go structure: they are the store of sessions created so far
  and the record of what was closed and which goroutines were started.
\<close>

record MediaPort =
  plog :: "log_entry list"
  opts :: MediaOptions
  externalIP :: Addr
  port :: udpConn
  mediaReceived :: bool
  packetCount :: u64
  mediaTimeout :: bool
  timeoutStart :: "Time option"
  timeoutReset :: bool
  closed :: bool
  stats :: PortStats
  dtmfAudioEnabled :: bool
  jitterEnabled :: bool
  conf :: "MediaConf option"
  sess :: "nat option"
  hnd :: "HandlerCloser option"
  dtmfOutRTP :: "Stream option"
  dtmfOutAudio :: "PCM16Writer option"
  audioOutRTP :: "Stream option"
  audioOut :: SwitchWriter
  audioIn :: SwitchWriter
  audioInHandler :: "Handler option"
  dtmfIn :: "nat option"
  sessions :: "Session list"
  closed_writers :: "PCM16Writer list"
  closed_handlers :: "HandlerCloser list"
  tasks :: "Task list"

text \<open>
  \<^verbatim>\<open>NewMediaPortWith\<close>. \<open>listen\<close> is the error of \<^verbatim>\<open>rtp.ListenUDPPortRange\<close>
  when no connection is passed in (\<open>None\<close> when it succeeds or is not called).
\<close>

definition NewMediaPortWith :: "error option \<Rightarrow> MediaOptions option \<Rightarrow> int \<Rightarrow> error + MediaPort" where
  "NewMediaPortWith listen o0 sampleRate =
     (let o1 = (case o0 of None \<Rightarrow> zeroOptions | Some x \<Rightarrow> x);
          o2 = (if MediaTimeoutInitial o1 \<le> 0 then o1\<lparr>MediaTimeoutInitial := 30 * Second\<rparr> else o1);
          o3 = (if MediaTimeout o2 \<le> 0 then o2\<lparr>MediaTimeout := 15 * Second\<rparr> else o2);
          o4 = (if Stats o3 = None then o3\<lparr>Stats := Some zeroStats\<rparr> else o3)
      in case listen of
           Some e \<Rightarrow> Inl e
         | None \<Rightarrow> Inr
            \<lparr>plog = [(Debugw, ''listening for media on UDP'')],
             opts = o4,
             externalIP = IP o4,
             port = newUDPConn,
             mediaReceived = False,
             packetCount = 0,
             mediaTimeout = False,
             timeoutStart = None,
             timeoutReset = False,
             closed = False,
             stats = (case Stats o4 of None \<Rightarrow> zeroStats | Some st \<Rightarrow> st),
             dtmfAudioEnabled = False,
             jitterEnabled = EnableJitterBuffer o4,
             conf = None,
             sess = None,
             hnd = None,
             dtmfOutRTP = None,
             dtmfOutAudio = None,
             audioOutRTP = None,
             audioOut = NewSwitchWriter sampleRate,
             audioIn = NewSwitchWriter sampleRate,
             audioInHandler = None,
             dtmfIn = None,
             sessions = [],
             closed_writers = [],
             closed_handlers = [],
             tasks = [TimeoutLoop]\<rparr>)"

definition DisableOut :: "MediaPort \<Rightarrow> MediaPort" where
  "DisableOut p = p\<lparr>audioOut := (audioOut p)\<lparr>sw_disabled := True\<rparr>\<rparr>"

definition EnableOut :: "MediaPort \<Rightarrow> MediaPort" where
  "EnableOut p = p\<lparr>audioOut := (audioOut p)\<lparr>sw_disabled := False\<rparr>\<rparr>"

text \<open>\<^verbatim>\<open>EnableTimeout\<close>; \<open>now\<close> is the reading of \<^verbatim>\<open>time.Now()\<close>.\<close>

definition EnableTimeout :: "bool \<Rightarrow> Time \<Rightarrow> MediaPort \<Rightarrow> MediaPort" where
  "EnableTimeout enabled now p =
     (if \<not> enabled then p\<lparr>timeoutStart := None\<rparr>
      else p\<lparr>timeoutReset := True,
             timeoutStart := Some now,
             plog := plog p @ [(Infow, ''media timeout enabled'')]\<rparr>)"

text \<open>The writer displaced from a switch is closed when there was one.\<close>

definition close_writer :: "PCM16Writer option \<Rightarrow> MediaPort \<Rightarrow> MediaPort" where
  "close_writer w p =
     (case w of None \<Rightarrow> p | Some x \<Rightarrow> p\<lparr>closed_writers := closed_writers p @ [x]\<rparr>)"

definition close_session :: "nat \<Rightarrow> MediaPort \<Rightarrow> MediaPort" where
  "close_session i p =
     (if i < length (sessions p)
      then p\<lparr>sessions := (sessions p)[i := (sessions p ! i)\<lparr>sess_closed := True\<rparr>]\<rparr>
      else p)"

text \<open>
  \<^verbatim>\<open>Close\<close>. \<^verbatim>\<open>closed.Once\<close> runs the body when the fuse is not broken yet and
  breaks the fuse; afterwards it does nothing.
\<close>

definition Close :: "MediaPort \<Rightarrow> MediaPort" where
  "Close p =
     (if closed p then p
      else
        (let (w1, out1) = Swap None (audioOut p);
             p1 = close_writer w1 (p\<lparr>audioOut := out1\<rparr>);
             (w2, in1) = Swap None (audioIn p1);
             p2 = close_writer w2 (p1\<lparr>audioIn := in1\<rparr>);
             p3 = p2\<lparr>audioOutRTP := None, audioInHandler := None, dtmfOutRTP := None\<rparr>;
             p4 = (close_writer (dtmfOutAudio p3) p3)\<lparr>dtmfOutAudio := None\<rparr>;
             p5 = p4\<lparr>dtmfIn := None\<rparr>;
             p6 = (case sess p5 of None \<Rightarrow> p5 | Some i \<Rightarrow> close_session i p5);
             p7 = p6\<lparr>port := conn_Close (port p6)\<rparr>;
             p8 = (case hnd p7 of None \<Rightarrow> p7
                   | Some h \<Rightarrow> p7\<lparr>closed_handlers := closed_handlers p7 @ [h]\<rparr>)
         in p8\<lparr>closed := True\<rparr>))"

definition Config :: "MediaPort \<Rightarrow> MediaConf option" where
  "Config p = conf p"

text \<open>
  \<^verbatim>\<open>WriteAudioTo\<close> reads \<^verbatim>\<open>p.conf.Processor\<close> before anything else: with a nil
  \<^verbatim>\<open>p.conf\<close> the field access panics.
\<close>

definition WriteAudioTo :: "PCM16Writer \<Rightarrow> MediaPort \<Rightarrow> panic + MediaPort" where
  "WriteAudioTo w p =
     (case conf p of
        None \<Rightarrow> Inl NilPointerDereference
      | Some c \<Rightarrow>
          (let w1 = (case Processor c of None \<Rightarrow> w | Some f \<Rightarrow> Processed f w);
               (pw, in1) = Swap (Some w1) (audioIn p)
           in Inr (close_writer pw (p\<lparr>audioIn := in1\<rparr>))))"

subsection \<open>Activation: \<^verbatim>\<open>SetConfig\<close>\<close>

text \<open>
  Modelled from the spec: \<^verbatim>\<open>dtmf.SampleRate\<close> is a constant of the media SDK, not
  declared in this file; the spec gives the clock rate of telephone events as 8000.
\<close>

definition dtmf_SampleRate :: int where
  "dtmf_SampleRate = 8000"

text \<open>
  \<^verbatim>\<open>setupOutput\<close>, called holding the lock. \<open>i\<close> and \<open>c\<close> are \<^verbatim>\<open>p.sess\<close> and
  \<^verbatim>\<open>p.conf\<close>, which \<^verbatim>\<open>SetConfig\<close>, the only caller, has just stored. \<open>ows\<close> is
  the error of \<^verbatim>\<open>OpenWriteStream\<close> on the session, if any.
\<close>

definition setupOutput :: "error option \<Rightarrow> nat \<Rightarrow> MediaConf \<Rightarrow> MediaPort \<Rightarrow> error option \<times> MediaPort" where
  "setupOutput ows i c p =
     (if closed p then (Some ErrAlreadyClosed, p)
      else
        (let p1 = p\<lparr>tasks := tasks p @ [RtpLoop i]\<rparr>
         in case ows of
              Some e \<Rightarrow> (Some e, p1)
            | None \<Rightarrow>
               (let s_audio = Stream i (Type (Audio c)) (RTPClockRate (Codec (Audio c)));
                    p2 = p1\<lparr>audioOutRTP := Some s_audio\<rparr>;
                    out0 = EncodeRTP (Codec (Audio c)) s_audio;
                    (out1, p3) =
                      (if DTMFType (Audio c) \<noteq> 0 then
                         (let p2a = p2\<lparr>dtmfOutRTP := Some (Stream i (DTMFType (Audio c)) dtmf_SampleRate)\<rparr>
                          in if dtmfAudioEnabled p2a
                             then (MixerInput out0 0, p2a\<lparr>dtmfOutAudio := Some (MixerInput out0 1)\<rparr>)
                             else (out0, p2a))
                       else (out0, p2));
                    (w, sw) = Swap (Some out1) (audioOut p3)
                in (None, close_writer w (p3\<lparr>audioOut := sw\<rparr>)))))"

definition setupInput :: "MediaConf \<Rightarrow> MediaPort \<Rightarrow> MediaPort" where
  "setupInput c p =
     (let audioHandler = DecodeRTP (Codec (Audio c)) (Type (Audio c));
          p1 = p\<lparr>audioInHandler := Some audioHandler\<rparr>;
          h = Mux (Type (Audio c)) audioHandler
                (if DTMFType (Audio c) \<noteq> 0 then Some (DTMFType (Audio c)) else None)
                (jitterEnabled p1)
      in p1\<lparr>hnd := Some h\<rparr>)"

text \<open>
  \<^verbatim>\<open>SetConfig\<close>. \<open>srtp\<close> is the error of \<^verbatim>\<open>srtp.NewSession\<close>, consulted only when
  the configuration carries keys (\<^verbatim>\<open>rtp.NewSession\<close> returns no error); \<open>ows\<close> is
  passed on to \<^verbatim>\<open>setupOutput\<close>. The result is the returned error and the port after
  the call.
\<close>

definition SetConfig :: "error option \<Rightarrow> error option \<Rightarrow> MediaConf \<Rightarrow> MediaPort \<Rightarrow> error option \<times> MediaPort" where
  "SetConfig srtp ows c p =
     (if closed p then (Some ErrAlreadyClosed, p)
      else
        (let p1 = p\<lparr>plog := plog p @ [(Infow, ''using codecs'')]\<rparr>;
             p2 = p1\<lparr>port := SetDst (Remote c) (port p1)\<rparr>;
             err = (if Crypto c \<noteq> None then srtp else None)
         in case err of
              Some e \<Rightarrow> (Some e, p2)
            | None \<Rightarrow>
               (let new = \<lparr>secure = (Crypto c \<noteq> None), sess_closed = False\<rparr>;
                    i = length (sessions p2);
                    p3 = p2\<lparr>sessions := sessions p2 @ [new]\<rparr>;
                    p4 = p3\<lparr>port := SetDst (Remote c) (port p3)\<rparr>;
                    p5 = p4\<lparr>conf := Some c, sess := Some i\<rparr>
                in case setupOutput ows i c p5 of
                     (Some e, p6) \<Rightarrow> (Some e, p6)
                   | (None, p6) \<Rightarrow> (None, setupInput c p6))))"

definition SetDTMFAudio :: "bool \<Rightarrow> MediaPort \<Rightarrow> MediaPort" where
  "SetDTMFAudio enabled p = p\<lparr>dtmfAudioEnabled := enabled\<rparr>"

definition HandleDTMF :: "nat option \<Rightarrow> MediaPort \<Rightarrow> MediaPort" where
  "HandleDTMF h p = (case h of None \<Rightarrow> p\<lparr>dtmfIn := None\<rparr> | Some f \<Rightarrow> p\<lparr>dtmfIn := Some f\<rparr>)"

text \<open>
  \<^verbatim>\<open>WriteDTMF\<close>. A call of \<^verbatim>\<open>dtmf.Write\<close> is recorded with its arguments: the audio
  output, the RTP stream, the start timestamp and the digits. \<open>ts\<close> answers
  \<^verbatim>\<open>GetCurrentTimestamp\<close> of a stream and \<open>dw\<close> is the error \<^verbatim>\<open>dtmf.Write\<close> returns.
  The result is the returned error and the calls of \<^verbatim>\<open>dtmf.Write\<close> made.
\<close>

type_synonym dtmf_call = "PCM16Writer option \<times> Stream option \<times> 32 word \<times> string"

definition WriteDTMF :: "(Stream \<Rightarrow> 32 word) \<Rightarrow> (dtmf_call \<Rightarrow> error option) \<Rightarrow> string \<Rightarrow> MediaPort
    \<Rightarrow> error option \<times> dtmf_call list" where
  "WriteDTMF ts dw digits p =
     (if length digits = 0 then (None, [])
      else
        (let dtmfOut = dtmfOutRTP p;
             audioOut0 = dtmfOutAudio p;
             audioOutRTP0 = audioOutRTP p;
             audioOut1 = (if \<not> dtmfAudioEnabled p then None else audioOut0)
         in if dtmfOut = None \<and> audioOut1 = None then (None, [])
            else
              (let rtpTs = (case audioOutRTP0 of None \<Rightarrow> 0 | Some s \<Rightarrow> ts s);
                   call = (audioOut1, dtmfOut, rtpTs, digits)
               in (dw call, [call]))))"

subsection \<open>The accept loop\<close>

text \<open>
  \<^verbatim>\<open>strings.Contains\<close>, for the test of the error text.
\<close>

fun HasPrefix :: "string \<Rightarrow> string \<Rightarrow> bool" where
  "HasPrefix s [] = True"
| "HasPrefix [] (y # ys) = False"
| "HasPrefix (x # xs) (y # ys) = (x = y \<and> HasPrefix xs ys)"

fun Contains :: "string \<Rightarrow> string \<Rightarrow> bool" where
  "Contains [] sub = (sub = [])"
| "Contains (x # xs) sub = (HasPrefix (x # xs) sub \<or> Contains xs sub)"

text \<open>
  An error of \<^verbatim>\<open>AcceptStream\<close>: whether \<^verbatim>\<open>errors.Is(err, net.ErrClosed)\<close> holds, and
  its text. A successful call gives a read stream (by identity) and its SSRC.
\<close>

record accept_error =
  is_net_ErrClosed :: bool
  err_text :: string

datatype accept_result = AcceptOK nat "32 word" | AcceptFailed accept_error

datatype loop_exit = Blocked | Returned

text \<open>
  What the accept loop touches: the stream counter, the media-received fuse, the log
  (each entry with the SSRC it is about, if any), and the read loops it started, in
  order, each with its read stream and SSRC.
\<close>

record accept_loop =
  al_Streams :: u64
  al_mediaReceived :: bool
  al_log :: "(log_entry \<times> 32 word option) list"
  al_started :: "(nat \<times> 32 word) list"

fun rtpLoop_from :: "accept_loop \<Rightarrow> accept_result list \<Rightarrow> loop_exit \<times> accept_loop" where
  "rtpLoop_from st [] = (Blocked, st)"
| "rtpLoop_from st (AcceptFailed e # rest) =
     (Returned,
      if \<not> is_net_ErrClosed e \<and> \<not> Contains (err_text e) ''closed''
      then st\<lparr>al_log := al_log st @ [((Errorw, ''cannot accept RTP stream''), None)]\<rparr>
      else st)"
| "rtpLoop_from st (AcceptOK r ssrc # rest) =
     rtpLoop_from
       (st\<lparr>al_Streams := al_Streams st + 1,
           al_mediaReceived := True,
           al_log := al_log st @ [((Infow, ''accepting RTP stream''), Some ssrc)],
           al_started := al_started st @ [(r, ssrc)]\<rparr>)
       rest"

definition rtpLoop :: "MediaPort \<Rightarrow> accept_result list \<Rightarrow> loop_exit \<times> accept_loop" where
  "rtpLoop p rs =
     rtpLoop_from \<lparr>al_Streams = Streams (stats p), al_mediaReceived = mediaReceived p,
                   al_log = [], al_started = []\<rparr> rs"

text \<open>
  The file also holds an older revision of the port, whose accept loop keeps a flag
  \<^verbatim>\<open>first\<close> and starts a read loop for the first stream only. It has no stream
  counter.
\<close>

fun rtpLoop_old_from :: "bool \<Rightarrow> accept_loop \<Rightarrow> accept_result list \<Rightarrow> loop_exit \<times> accept_loop" where
  "rtpLoop_old_from first st [] = (Blocked, st)"
| "rtpLoop_old_from first st (AcceptFailed e # rest) =
     (Returned,
      if \<not> is_net_ErrClosed e
      then st\<lparr>al_log := al_log st @ [((Errorw, ''cannot accept RTP stream''), None)]\<rparr>
      else st)"
| "rtpLoop_old_from first st (AcceptOK r ssrc # rest) =
     (let st1 = st\<lparr>al_mediaReceived := True\<rparr>
      in if first then
           rtpLoop_old_from False
             (st1\<lparr>al_log := al_log st1 @ [((Infow, ''accepting media''), Some ssrc)],
                  al_started := al_started st1 @ [(r, ssrc)]\<rparr>) rest
         else
           rtpLoop_old_from first
             (st1\<lparr>al_log := al_log st1 @ [((Warnw, ''ignoring media''), Some ssrc)]\<rparr>) rest)"

subsection \<open>The read loop\<close>

text \<open>
  Modelled from the spec: \<^verbatim>\<open>rtp.MTUSize\<close> is a constant of the media SDK, not
  declared in this file; the spec gives the MTU as 1500 bytes.
\<close>

definition MTUSize :: int where
  "MTUSize = 1500"

definition maxErrors :: int where
  "maxErrors = 50"

text \<open>
  What \<^verbatim>\<open>p.hnd.Load()\<close> gives while a packet is handled: a nil pointer, a pointer to a
  nil interface, or a handler, given by its \<^verbatim>\<open>String()\<close> and by the error its
  \<^verbatim>\<open>HandleRTP\<close> returns for this packet. One result of \<^verbatim>\<open>ReadRTP\<close> is the end of the
  stream, another error, or the size of the packet read, together with the load.
\<close>

datatype hnd_load = PtrNil | IfaceNil | Loaded string "error option"

datatype read_result = ReadEOF | ReadFailed error | ReadOK int hnd_load

datatype read_exit = ReadBlocked | ExitEOF | ExitReadFailed | ExitKilled

text \<open>
  The counters of the port the loop adds to, its local variables, what it logged and
  the sizes of the packets it passed to \<^verbatim>\<open>HandleRTP\<close>, in order.
\<close>

record read_loop =
  rl_packetCount :: u64
  rl_stats :: PortStats
  overflow :: bool
  pipeline :: string
  errorCnt :: int
  rl_log :: "log_entry list"
  dispatched :: "int list"

definition ignore_packet :: "read_loop \<Rightarrow> read_loop" where
  "ignore_packet st = st\<lparr>rl_stats := (rl_stats st)\<lparr>IgnoredPackets := IgnoredPackets (rl_stats st) + 1\<rparr>\<rparr>"

text \<open>
  The body of one iteration after a successful read of \<open>n\<close> bytes. The boolean says
  whether the loop returns.
\<close>

definition read_packet :: "read_loop \<Rightarrow> int \<Rightarrow> hnd_load \<Rightarrow> bool \<times> read_loop" where
  "read_packet st n h =
     (let st1 = st\<lparr>rl_packetCount := rl_packetCount st + 1,
                   rl_stats := (rl_stats st)\<lparr>Packets := Packets (rl_stats st) + 1\<rparr>\<rparr>
      in if n > MTUSize then
           (let st2 = st1\<lparr>overflow := True\<rparr>;
                st3 = (if \<not> overflow st2
                       then st2\<lparr>rl_log := rl_log st2 @ [(Errorw, ''RTP packet is larger than MTU limit'')]\<rparr>
                       else st2)
            in (False, ignore_packet st3))
         else
           (case h of
              PtrNil \<Rightarrow> (False, ignore_packet st1)
            | IfaceNil \<Rightarrow> (False, ignore_packet st1)
            | Loaded name res \<Rightarrow>
               (let st2 = st1\<lparr>rl_stats := (rl_stats st1)\<lparr>InputPackets := InputPackets (rl_stats st1) + 1\<rparr>,
                              dispatched := dispatched st1 @ [n]\<rparr>
                in case res of
                     Some err \<Rightarrow>
                       (let st3 = (if pipeline st2 = [] then st2\<lparr>pipeline := name\<rparr> else st2);
                            st4 = st3\<lparr>rl_log := rl_log st3 @ [(Debugw, ''handle RTP failed'')]\<rparr>;
                            st5 = st4\<lparr>errorCnt := errorCnt st4 + 1\<rparr>
                        in if errorCnt st5 \<ge> maxErrors then
                             (True, st5\<lparr>rl_log := rl_log st5 @
                                [(Errorw, ''killing RTP loop due to persisted errors'')]\<rparr>)
                           else (False, st5))
                   | None \<Rightarrow> (False, st2\<lparr>errorCnt := 0, pipeline := []\<rparr>))))"

fun rtpReadLoop_from :: "read_loop \<Rightarrow> read_result list \<Rightarrow> read_exit \<times> read_loop" where
  "rtpReadLoop_from st [] = (ReadBlocked, st)"
| "rtpReadLoop_from st (ReadEOF # rest) = (ExitEOF, st)"
| "rtpReadLoop_from st (ReadFailed e # rest) =
     (ExitReadFailed, st\<lparr>rl_log := rl_log st @ [(Errorw, ''read RTP failed'')]\<rparr>)"
| "rtpReadLoop_from st (ReadOK n h # rest) =
     (case read_packet st n h of
        (True, st1) \<Rightarrow> (ExitKilled, st1)
      | (False, st1) \<Rightarrow> rtpReadLoop_from st1 rest)"

definition rtpReadLoop :: "MediaPort \<Rightarrow> read_result list \<Rightarrow> read_exit \<times> read_loop" where
  "rtpReadLoop p rs =
     rtpReadLoop_from \<lparr>rl_packetCount = packetCount p, rl_stats = stats p, overflow = False,
                       pipeline = [], errorCnt = 0, rl_log = [], dispatched = []\<rparr> rs"

subsection \<open>The timeout watchdog\<close>











subsection \<open>Sequences of calls on a port\<close>

text \<open>
  The calls a client can make on the port. A panic ends the sequence. \<^verbatim>\<open>WriteDTMF\<close>
  changes no field of the port.
\<close>

datatype op =
    OpSetConfig "error option" "error option" MediaConf
  | OpClose
  | OpWriteAudioTo PCM16Writer
  | OpWriteDTMF string
  | OpSetDTMFAudio bool
  | OpHandleDTMF "nat option"
  | OpEnableTimeout bool Time
  | OpDisableOut
  | OpEnableOut

text \<open>
  The calls of \<^verbatim>\<open>SetConfig\<close> whose session construction succeeds: on an open port
  they get as far as storing the configuration.
\<close>

fun stores_conf :: "op \<Rightarrow> bool" where
  "stores_conf (OpSetConfig srtp ows c) = (Crypto c = None \<or> srtp = None)"
| "stores_conf x = False"

fun apply_op :: "op \<Rightarrow> MediaPort \<Rightarrow> panic + MediaPort" where
  "apply_op (OpSetConfig srtp ows c) p = Inr (snd (SetConfig srtp ows c p))"
| "apply_op OpClose p = Inr (Close p)"
| "apply_op (OpWriteAudioTo w) p = WriteAudioTo w p"
| "apply_op (OpWriteDTMF digits) p = Inr p"
| "apply_op (OpSetDTMFAudio enabled) p = Inr (SetDTMFAudio enabled p)"
| "apply_op (OpHandleDTMF h) p = Inr (HandleDTMF h p)"
| "apply_op (OpEnableTimeout enabled now) p = Inr (EnableTimeout enabled now p)"
| "apply_op OpDisableOut p = Inr (DisableOut p)"
| "apply_op OpEnableOut p = Inr (EnableOut p)"

fun run_ops :: "op list \<Rightarrow> MediaPort \<Rightarrow> panic + MediaPort" where
  "run_ops [] p = Inr p"
| "run_ops (x # xs) p = (case apply_op x p of Inl e \<Rightarrow> Inl e | Inr q \<Rightarrow> run_ops xs q)"

subsection \<open>The watchdog within the port\<close>







subsection \<open>Notions of the specification\<close>

text \<open>
  The streams a sequence of results of \<^verbatim>\<open>AcceptStream\<close> accepts before its first
  failure, each with its SSRC.
\<close>

fun accepted :: "accept_result list \<Rightarrow> (nat \<times> 32 word) list" where
  "accepted [] = []"
| "accepted (AcceptFailed e # rest) = []"
| "accepted (AcceptOK r ssrc # rest) = (r, ssrc) # accepted rest"

text \<open>
  The outcomes of the dispatches in a sequence of reads, up to the first read that is
  not a packet: one entry per packet that reaches a handler, \<open>True\<close> when the handler
  returns an error. Oversize packets and packets that find no handler are not
  dispatched and have no entry.
\<close>

fun dispatch_errors :: "read_result list \<Rightarrow> bool list" where
  "dispatch_errors [] = []"
| "dispatch_errors (ReadEOF # rest) = []"
| "dispatch_errors (ReadFailed e # rest) = []"
| "dispatch_errors (ReadOK n PtrNil # rest) = dispatch_errors rest"
| "dispatch_errors (ReadOK n IfaceNil # rest) = dispatch_errors rest"
| "dispatch_errors (ReadOK n (Loaded name res) # rest) =
     (if n > MTUSize then dispatch_errors rest else (res \<noteq> None) # dispatch_errors rest)"

text \<open>\<open>k\<close> consecutive errors somewhere in a sequence of outcomes.\<close>

fun consecutive_errors :: "nat \<Rightarrow> bool list \<Rightarrow> bool" where
  "consecutive_errors k [] = (k = 0)"
| "consecutive_errors k (x # xs) =
     (take k (x # xs) = replicate k True \<or> consecutive_errors k xs)"











subsection \<open>Sample values\<close>

text \<open>
  A remote address and two negotiated configurations, one without and one with SRTP
  keys, and an error an SRTP session factory may return. They serve as concrete inputs.
\<close>

definition remote1 :: AddrPort where
  "remote1 = \<lparr>ap_addr = IPv4 3221225989, ap_port = 30000\<rparr>"

definition conf_plain :: MediaConf where
  "conf_plain =
     \<lparr>Remote = remote1,
      Audio = \<lparr>Codec = \<lparr>SDPName = ''PCMU'', RTPClockRate = 8000\<rparr>, Type = 0, DTMFType = 101\<rparr>,
      Crypto = None,
      Processor = None\<rparr>"

definition conf_srtp :: MediaConf where
  "conf_srtp = conf_plain\<lparr>Crypto := Some ''AES_CM_128_HMAC_SHA1_80''\<rparr>"

definition bad_key :: error where
  "bad_key = ErrExternal ''invalid key length''"

text \<open>A read that delivers a 160-byte packet to a handler which rejects it.\<close>

definition bad_frame :: read_result where
  "bad_frame = ReadOK 160 (Loaded ''mux'' (Some (ErrExternal ''malformed frame'')))"








section \<open>Properties\<close>

subsection \<open>The UDP channel\<close>

lemma SetDst_dst: "dst (SetDst a c) = (if IsValid a then Some a else dst c)"
  by (simp add: SetDst_def Let_def)

lemma SetDst_sent: "sent (SetDst a c) = sent c"
  by (simp add: SetDst_def Let_def)

lemma dst_newUDPConn: "dst newUDPConn = None"
  by (simp add: newUDPConn_def)

text \<open>
  C6. A write on the channel while the destination is unset reports the full length of
  the buffer, returns no error and leaves the channel as it was: the socket is not
  called. With a destination \<open>d\<close> the write is one call of the socket's
  \<^verbatim>\<open>WriteToUDPAddrPort\<close> with the buffer and \<open>d\<close>, whose answer it returns; in
  particular after \<^verbatim>\<open>SetDst\<close> with a valid address the datagram goes to that address.
\<close>

theorem udpConn_Write_destination:
  "(dst c = None \<longrightarrow> Write sock b c = ((int (length b), None), c)) \<and>
   (dst c = Some d \<longrightarrow> Write sock b c = (sock b d, c\<lparr>sent := sent c @ [(b, d)]\<rparr>)) \<and>
   (IsValid a \<longrightarrow> fst (Write sock b (SetDst a c)) = sock b a \<and>
      sent (snd (Write sock b (SetDst a c))) = sent c @ [(b, a)])"
  by (simp add: Write_def SetDst_dst SetDst_sent)

theorem udpConn_Write_destination_witness:
  "Write (\<lambda>b d. (int (length b), None)) [1, 2, 3] newUDPConn = ((3, None), newUDPConn) \<and>
   dst (SetDst \<lparr>ap_addr = IPv4 1, ap_port = 30000\<rparr> newUDPConn)
     = Some \<lparr>ap_addr = IPv4 1, ap_port = 30000\<rparr> \<and>
   sent (snd (Write (\<lambda>b d. (int (length b), None)) [1, 2, 3]
     (SetDst \<lparr>ap_addr = IPv4 1, ap_port = 30000\<rparr> newUDPConn)))
     = [([1, 2, 3], \<lparr>ap_addr = IPv4 1, ap_port = 30000\<rparr>)]"
proof -
  let ?a = "\<lparr>ap_addr = IPv4 1, ap_port = 30000\<rparr>"
  let ?sock = "\<lambda>(b::byte list) (d::AddrPort). (int (length b), None::error option)"
  have v: "IsValid ?a"
    by (simp add: IsValid_def)
  have s: "sent newUDPConn = []"
    by (simp add: newUDPConn_def)
  have d: "dst (SetDst ?a newUDPConn) = Some ?a"
    using v by (simp add: SetDst_dst)
  have w1: "Write ?sock [1, 2, 3] newUDPConn = ((3, None), newUDPConn)"
    using udpConn_Write_destination [of newUDPConn ?sock "[1, 2, 3]" ?a ?a] dst_newUDPConn
    by simp
  have w2: "sent (snd (Write ?sock [1, 2, 3] (SetDst ?a newUDPConn))) = [([1, 2, 3], ?a)]"
    using udpConn_Write_destination [of "SetDst ?a newUDPConn" ?sock "[1, 2, 3]" ?a ?a] d s
    by (simp add: SetDst_sent)
  show ?thesis
    using w1 d w2 by simp
qed

subsection \<open>A fresh port\<close>

lemma NewMediaPortWith_ok: "\<exists>p. NewMediaPortWith None o0 sampleRate = Inr p"
  by (simp add: NewMediaPortWith_def Let_def)

lemma NewMediaPortWith_conf: "NewMediaPortWith listen o0 sampleRate = Inr p \<Longrightarrow> conf p = None"
  by (auto simp: NewMediaPortWith_def Let_def split: option.splits)

lemma NewMediaPortWith_closed: "NewMediaPortWith listen o0 sampleRate = Inr p \<Longrightarrow> \<not> closed p"
  by (auto simp: NewMediaPortWith_def Let_def split: option.splits)

lemma NewMediaPortWith_outputs:
  "NewMediaPortWith listen o0 sampleRate = Inr p \<Longrightarrow>
     dtmfOutRTP p = None \<and> dtmfOutAudio p = None \<and> audioOutRTP p = None \<and> \<not> dtmfAudioEnabled p"
  by (auto simp: NewMediaPortWith_def Let_def split: option.splits)

lemma NewMediaPortWith_session:
  "NewMediaPortWith listen o0 sampleRate = Inr p \<Longrightarrow>
     sess p = None \<and> sessions p = [] \<and> hnd p = None \<and> dst (port p) = None"
  by (auto simp: NewMediaPortWith_def Let_def newUDPConn_def split: option.splits)

subsection \<open>DTMF output\<close>

text \<open>
  C9. \<^verbatim>\<open>WriteDTMF\<close> with an empty digit string returns no error and does not call
  \<^verbatim>\<open>dtmf.Write\<close>. So does \<^verbatim>\<open>WriteDTMF\<close> on a port that has no outbound DTMF stream
  and whose DTMF audio output is absent or not enabled, whatever the digits.
\<close>

theorem WriteDTMF_no_output:
  "(digits = [] \<longrightarrow> WriteDTMF ts dw digits p = (None, [])) \<and>
   (dtmfOutRTP p = None \<and> (dtmfOutAudio p = None \<or> \<not> dtmfAudioEnabled p)
      \<longrightarrow> WriteDTMF ts dw digits p = (None, []))"
  by (auto simp: WriteDTMF_def Let_def)

theorem WriteDTMF_no_output_witness:
  "(case NewMediaPortWith None None 8000 of
      Inl e \<Rightarrow> False
    | Inr p \<Rightarrow>
        WriteDTMF (\<lambda>s. 16000) (\<lambda>c. Some (ErrExternal ''cancelled'')) [] p = (None, []) \<and>
        dtmfOutRTP p = None \<and> dtmfOutAudio p = None \<and>
        WriteDTMF (\<lambda>s. 16000) (\<lambda>c. Some (ErrExternal ''cancelled'')) ''12#'' p = (None, []))"
proof -
  obtain p where p: "NewMediaPortWith None None 8000 = Inr p"
    using NewMediaPortWith_ok by blast
  have out: "dtmfOutRTP p = None" "dtmfOutAudio p = None"
    using NewMediaPortWith_outputs [OF p] by simp_all
  have "WriteDTMF (\<lambda>s. 16000) (\<lambda>c. Some (ErrExternal ''cancelled'')) [] p = (None, [])"
    using WriteDTMF_no_output [of "[]" "\<lambda>s. 16000" "\<lambda>c. Some (ErrExternal ''cancelled'')" p]
    by simp
  moreover have "WriteDTMF (\<lambda>s. 16000) (\<lambda>c. Some (ErrExternal ''cancelled'')) ''12#'' p = (None, [])"
    using WriteDTMF_no_output [of "''12#''" "\<lambda>s. 16000" "\<lambda>c. Some (ErrExternal ''cancelled'')" p] out
    by simp
  ultimately show ?thesis
    using p out by simp
qed

subsection \<open>What the calls preserve\<close>

lemma close_writer_fields [simp]:
  "closed (close_writer w p) = closed p"
  "conf (close_writer w p) = conf p"
  "sess (close_writer w p) = sess p"
  "hnd (close_writer w p) = hnd p"
  "sessions (close_writer w p) = sessions p"
  "port (close_writer w p) = port p"
  "tasks (close_writer w p) = tasks p"
  by (simp_all add: close_writer_def split: option.splits)

lemma close_session_fields [simp]:
  "closed (close_session i p) = closed p"
  "conf (close_session i p) = conf p"
  "sess (close_session i p) = sess p"
  "hnd (close_session i p) = hnd p"
  "port (close_session i p) = port p"
  by (simp_all add: close_session_def)

lemma closed_Close: "closed (Close p)"
  by (simp add: Close_def Let_def Swap_def split: option.splits)

lemma Close_closed: "closed p \<Longrightarrow> Close p = p"
  by (simp add: Close_def)

lemma conf_Close: "conf (Close p) = conf p"
  by (simp add: Close_def Let_def Swap_def split: option.splits)

lemma SetConfig_closed: "closed p \<Longrightarrow> SetConfig srtp ows c p = (Some ErrAlreadyClosed, p)"
  by (simp add: SetConfig_def)

lemma WriteAudioTo_closed: "WriteAudioTo w p = Inr q \<Longrightarrow> closed q = closed p"
  by (auto simp: WriteAudioTo_def Let_def Swap_def split: option.splits)

lemma WriteAudioTo_nil: "conf p = None \<Longrightarrow> WriteAudioTo w p = Inl NilPointerDereference"
  by (simp add: WriteAudioTo_def)

lemma apply_op_closed: "closed p \<Longrightarrow> apply_op x p = Inr q \<Longrightarrow> closed q"
  by (cases x)
     (auto simp: SetConfig_closed Close_closed WriteAudioTo_closed SetDTMFAudio_def HandleDTMF_def
        EnableTimeout_def DisableOut_def EnableOut_def split: option.splits)

lemma run_ops_closed: "closed p \<Longrightarrow> run_ops xs p = Inr q \<Longrightarrow> closed q"
proof (induction xs arbitrary: p)
  case Nil
  then show ?case by simp
next
  case (Cons x xs)
  then show ?case
    by (auto split: sum.splits dest: apply_op_closed)
qed

lemma SetConfig_not_stored:
  "Crypto c \<noteq> None \<Longrightarrow> conf (snd (SetConfig (Some e) ows c p)) = conf p"
  by (simp add: SetConfig_def Let_def)

lemma apply_op_conf:
  "\<not> stores_conf x \<Longrightarrow> conf p = None \<Longrightarrow> apply_op x p = Inr q \<Longrightarrow> conf q = None"
  by (cases x)
     (auto simp: conf_Close WriteAudioTo_nil SetDTMFAudio_def HandleDTMF_def SetConfig_not_stored
        EnableTimeout_def DisableOut_def EnableOut_def split: option.splits)

lemma run_ops_conf:
  "\<forall>x \<in> set xs. \<not> stores_conf x \<Longrightarrow> conf p = None \<Longrightarrow> run_ops xs p = Inr q \<Longrightarrow> conf q = None"
proof (induction xs arbitrary: p)
  case Nil
  then show ?case by simp
next
  case (Cons x xs)
  then show ?case
    by (auto split: sum.splits dest: apply_op_conf)
qed

text \<open>A port has one watchdog: no call on the port starts another.\<close>

lemma setupOutput_tasks:
  "filter (\<lambda>t. t = TimeoutLoop) (tasks (snd (setupOutput ows i c p)))
     = filter (\<lambda>t. t = TimeoutLoop) (tasks p)"
  by (auto simp: setupOutput_def Let_def Swap_def split: option.splits prod.splits)

lemma SetConfig_tasks:
  "filter (\<lambda>t. t = TimeoutLoop) (tasks (snd (SetConfig srtp ows c p)))
     = filter (\<lambda>t. t = TimeoutLoop) (tasks p)"
proof -
  have "filter (\<lambda>t. t = TimeoutLoop) (tasks (snd (case setupOutput ows i c q of
            (Some e, q1) \<Rightarrow> (Some e, q1) | (None, q1) \<Rightarrow> (None, setupInput c q1))))
          = filter (\<lambda>t. t = TimeoutLoop) (tasks q)" for i q
    using setupOutput_tasks [of ows i c q]
    by (cases "setupOutput ows i c q") (auto simp: setupInput_def Let_def split: option.splits)
  then show ?thesis
    by (simp add: SetConfig_def Let_def split: option.splits)
qed

lemma apply_op_tasks:
  "apply_op x p = Inr q \<Longrightarrow>
     filter (\<lambda>t. t = TimeoutLoop) (tasks q) = filter (\<lambda>t. t = TimeoutLoop) (tasks p)"
  by (cases x)
     (auto simp: SetConfig_tasks Close_def Let_def Swap_def WriteAudioTo_def SetDTMFAudio_def
        HandleDTMF_def EnableTimeout_def DisableOut_def EnableOut_def close_session_def
        split: option.splits)

lemma run_ops_one_watchdog:
  "NewMediaPortWith listen o0 sampleRate = Inr p \<Longrightarrow> run_ops xs p = Inr q \<Longrightarrow>
     filter (\<lambda>t. t = TimeoutLoop) (tasks q) = [TimeoutLoop]"
proof (induction xs arbitrary: q rule: rev_induct)
  case Nil
  then show ?case
    by (auto simp: NewMediaPortWith_def Let_def split: option.splits)
next
  case (snoc x xs)
  have app: "run_ops (ys @ [x]) p0 = (case run_ops ys p0 of Inl e \<Rightarrow> Inl e | Inr q0 \<Rightarrow> apply_op x q0)"
    for ys p0
    by (induction ys arbitrary: p0) (auto split: sum.splits)
  obtain q0 where q0: "run_ops xs p = Inr q0" "apply_op x q0 = Inr q"
    using snoc.prems(2) app [of xs p] by (auto split: sum.splits)
  show ?case
    using snoc.IH [OF snoc.prems(1) q0(1)] apply_op_tasks [OF q0(2)] by simp
qed

subsection \<open>After \<^verbatim>\<open>Close\<close>\<close>

text \<open>
  C8. Once \<^verbatim>\<open>Close\<close> has run, the port is closed and stays closed through every
  further sequence of calls, and \<^verbatim>\<open>SetConfig\<close> then returns the error
  ``media is already closed'' for every configuration and every behaviour of the
  collaborators, leaving the port as it is.
\<close>

theorem SetConfig_after_Close:
  "run_ops xs (Close p) = Inr q \<Longrightarrow>
     closed q \<and> SetConfig srtp ows c q = (Some ErrAlreadyClosed, q)"
  using run_ops_closed [OF closed_Close] SetConfig_closed by blast

subsection \<open>\<^verbatim>\<open>WriteAudioTo\<close> before a configuration is stored\<close>

text \<open>
  C10. On a port as \<^verbatim>\<open>NewMediaPortWith\<close> returns it, and after any sequence of calls
  in which no \<^verbatim>\<open>SetConfig\<close> got as far as storing a configuration (there is none,
  or each failed in the construction of its SRTP session), \<^verbatim>\<open>WriteAudioTo\<close> panics
  with a nil pointer dereference: \<^verbatim>\<open>p.conf\<close> is still nil when
  \<^verbatim>\<open>p.conf.Processor\<close> is read.
\<close>

theorem WriteAudioTo_without_conf:
  "NewMediaPortWith listen o0 sampleRate = Inr p \<Longrightarrow>
   \<forall>x \<in> set xs. \<not> stores_conf x \<Longrightarrow>
   run_ops xs p = Inr q \<Longrightarrow>
     WriteAudioTo w q = Inl NilPointerDereference"
  using run_ops_conf [OF _ NewMediaPortWith_conf] WriteAudioTo_nil by blast

theorem SetConfig_after_Close_witness:
  "(case NewMediaPortWith None None 8000 of
      Inl e \<Rightarrow> False
    | Inr p \<Rightarrow>
        run_ops [OpSetDTMFAudio True, OpClose] (Close p) = Inr (SetDTMFAudio True (Close p)) \<and>
        SetConfig None None conf_plain (SetDTMFAudio True (Close p))
          = (Some ErrAlreadyClosed, SetDTMFAudio True (Close p)))"
proof -
  obtain p where p: "NewMediaPortWith None None 8000 = Inr p"
    using NewMediaPortWith_ok by blast
  have c: "closed (SetDTMFAudio True (Close p))"
    by (simp add: SetDTMFAudio_def closed_Close)
  have r: "run_ops [OpSetDTMFAudio True, OpClose] (Close p) = Inr (SetDTMFAudio True (Close p))"
    using c by (simp add: Close_closed)
  show ?thesis
    using p r SetConfig_after_Close [OF r, of None None conf_plain] by simp
qed

theorem WriteAudioTo_without_conf_witness:
  "(case NewMediaPortWith None None 8000 of
      Inl e \<Rightarrow> False
    | Inr p \<Rightarrow>
        run_ops [OpSetConfig (Some bad_key) None conf_srtp, OpEnableTimeout True 0] p
          = Inr (EnableTimeout True 0 (snd (SetConfig (Some bad_key) None conf_srtp p))) \<and>
        WriteAudioTo (External 0) (EnableTimeout True 0 (snd (SetConfig (Some bad_key) None conf_srtp p)))
          = Inl NilPointerDereference)"
proof -
  obtain p where p: "NewMediaPortWith None None 8000 = Inr p"
    using NewMediaPortWith_ok by blast
  have r: "run_ops [OpSetConfig (Some bad_key) None conf_srtp, OpEnableTimeout True 0] p
             = Inr (EnableTimeout True 0 (snd (SetConfig (Some bad_key) None conf_srtp p)))"
    by simp
  have n: "\<forall>x \<in> set [OpSetConfig (Some bad_key) None conf_srtp, OpEnableTimeout True 0]. \<not> stores_conf x"
    by (simp add: conf_srtp_def conf_plain_def)
  show ?thesis
    using p r WriteAudioTo_without_conf [OF p n r, of "External 0"] by simp
qed

subsection \<open>\<^verbatim>\<open>SetConfig\<close>: what is published when\<close>

lemma setupOutput_fields:
  "setupOutput ows i c p = (r, q) \<Longrightarrow>
     sessions q = sessions p \<and> sess q = sess p \<and> conf q = conf p \<and> hnd q = hnd p \<and>
     port q = port p \<and> closed q = closed p"
  by (auto simp: setupOutput_def Let_def Swap_def split: if_splits option.splits)

lemma setupInput_fields:
  "sessions (setupInput c p) = sessions p \<and> sess (setupInput c p) = sess p \<and>
   conf (setupInput c p) = conf p \<and> port (setupInput c p) = port p \<and>
   closed (setupInput c p) = closed p"
  by (simp add: setupInput_def Let_def)

lemma SetConfig_srtp_error:
  "\<not> closed p \<Longrightarrow> Crypto c \<noteq> None \<Longrightarrow>
     SetConfig (Some e) ows c p =
       (Some e, p\<lparr>plog := plog p @ [(Infow, ''using codecs'')],
                  port := SetDst (Remote c) (port p)\<rparr>)"
  by (simp add: SetConfig_def Let_def)

lemma SetConfig_session_created:
  assumes "\<not> closed p" and "Crypto c = None \<or> srtp = None"
    and "SetConfig srtp ows c p = (r, q)"
  shows "sessions q = sessions p @ [\<lparr>secure = (Crypto c \<noteq> None), sess_closed = False\<rparr>]"
    and "sess q = Some (length (sessions p))"
    and "conf q = Some c"
proof -
  let ?new = "\<lparr>secure = (Crypto c \<noteq> None), sess_closed = False\<rparr>"
  let ?p5 = "p\<lparr>plog := plog p @ [(Infow, ''using codecs'')],
               port := SetDst (Remote c) (port p),
               sessions := sessions p @ [?new],
               port := SetDst (Remote c) (SetDst (Remote c) (port p)),
               conf := Some c, sess := Some (length (sessions p))\<rparr>"
  obtain r1 q1 where so: "setupOutput ows (length (sessions p)) c ?p5 = (r1, q1)"
    by (cases "setupOutput ows (length (sessions p)) c ?p5")
  have q: "q = (case r1 of Some e \<Rightarrow> q1 | None \<Rightarrow> setupInput c q1)"
    using assms so by (auto simp: SetConfig_def Let_def split: option.splits)
  have f: "sessions q1 = sessions ?p5 \<and> sess q1 = sess ?p5 \<and> conf q1 = conf ?p5"
    using setupOutput_fields [OF so] by simp
  show "sessions q = sessions p @ [?new]"
    using q f by (simp add: setupInput_fields split: option.splits)
  show "sess q = Some (length (sessions p))"
    using q f by (simp add: setupInput_fields split: option.splits)
  show "conf q = Some c"
    using q f by (simp add: setupInput_fields split: option.splits)
qed

text \<open>
  A \<^verbatim>\<open>SetConfig\<close> that fails only when the write stream is opened has already stored
  the configuration and the session, and has started the accept loop.
\<close>

lemma SetConfig_write_stream_error:
  assumes "\<not> closed p" and "Crypto c = None \<or> srtp = None"
    and "SetConfig srtp (Some e) c p = (r, q)"
  shows "r = Some e" and "conf q = Some c" and "tasks q = tasks p @ [RtpLoop (length (sessions p))]"
proof -
  show "conf q = Some c"
    using SetConfig_session_created(3) [OF assms] .
  show "r = Some e" "tasks q = tasks p @ [RtpLoop (length (sessions p))]"
    using assms by (auto simp: SetConfig_def setupOutput_def Let_def split: option.splits)
qed

lemma IsValid_remote1: "IsValid remote1"
  by (simp add: IsValid_def remote1_def)

lemma conf_srtp_fields: "Crypto conf_srtp \<noteq> None" "Remote conf_srtp = remote1"
  by (simp_all add: conf_srtp_def conf_plain_def)

lemma conf_plain_fields: "Crypto conf_plain = None" "Remote conf_plain = remote1"
  by (simp_all add: conf_plain_def)

text \<open>
  C1, as stated, fails. On a fresh port, a \<^verbatim>\<open>SetConfig\<close> whose SRTP session factory
  fails returns the error, but the destination of the UDP channel, unset before the
  call, is the remote address of the rejected configuration after it: \<^verbatim>\<open>SetDst\<close> is
  called before the session is built.
\<close>

theorem SetConfig_srtp_failure_counterexample:
  "(case NewMediaPortWith None None 8000 of
      Inl e \<Rightarrow> False
    | Inr p \<Rightarrow>
        fst (SetConfig (Some bad_key) None conf_srtp p) = Some bad_key \<and>
        dst (port p) = None \<and>
        dst (port (snd (SetConfig (Some bad_key) None conf_srtp p))) = Some remote1)"
proof -
  obtain p where p: "NewMediaPortWith None None 8000 = Inr p"
    using NewMediaPortWith_ok by blast
  have "\<not> closed p"
    using NewMediaPortWith_closed [OF p] .
  then have "SetConfig (Some bad_key) None conf_srtp p =
      (Some bad_key, p\<lparr>plog := plog p @ [(Infow, ''using codecs'')],
                        port := SetDst (Remote conf_srtp) (port p)\<rparr>)"
    using conf_srtp_fields(1) by (rule SetConfig_srtp_error)
  then show ?thesis
    using p NewMediaPortWith_session [OF p] IsValid_remote1
    by (simp add: SetDst_dst conf_srtp_fields)
qed

text \<open>
  C1, amended. If \<^verbatim>\<open>SetConfig\<close> fails because the SRTP session factory returns an
  error, the call returns that error; the stored configuration, the session, the
  handler pointer, the store of sessions and the started tasks are those from before
  the call, and the port differs from the one before the call only in its log and in
  the UDP channel, on which \<^verbatim>\<open>SetDst\<close> has been called once: the destination is the
  remote address of the rejected configuration when that address is valid, and the
  former destination otherwise.
\<close>

theorem SetConfig_srtp_failure:
  assumes "\<not> closed p" and "Crypto c \<noteq> None" and "SetConfig (Some e) ows c p = (r, q)"
  shows "r = Some e \<and>
         conf q = conf p \<and> sess q = sess p \<and> hnd q = hnd p \<and>
         sessions q = sessions p \<and> tasks q = tasks p \<and>
         q = p\<lparr>plog := plog q, port := SetDst (Remote c) (port p)\<rparr> \<and>
         dst (port q) = (if IsValid (Remote c) then Some (Remote c) else dst (port p))"
proof -
  have "(r, q) = (Some e, p\<lparr>plog := plog p @ [(Infow, ''using codecs'')],
                             port := SetDst (Remote c) (port p)\<rparr>)"
    using SetConfig_srtp_error [OF assms(1,2), of e ows] assms(3) by simp
  then show ?thesis
    by (simp add: SetDst_dst)
qed

theorem SetConfig_srtp_failure_witness:
  "(case NewMediaPortWith None None 8000 of
      Inl e \<Rightarrow> False
    | Inr p \<Rightarrow>
        \<not> closed p \<and> Crypto conf_srtp \<noteq> None \<and>
        fst (SetConfig (Some bad_key) None conf_srtp p) = Some bad_key \<and>
        conf (snd (SetConfig (Some bad_key) None conf_srtp p)) = None \<and>
        sess (snd (SetConfig (Some bad_key) None conf_srtp p)) = None \<and>
        hnd (snd (SetConfig (Some bad_key) None conf_srtp p)) = None)"
proof -
  obtain p where p: "NewMediaPortWith None None 8000 = Inr p"
    using NewMediaPortWith_ok by blast
  have n: "\<not> closed p"
    using NewMediaPortWith_closed [OF p] .
  obtain r q where rq: "SetConfig (Some bad_key) None conf_srtp p = (r, q)"
    by (cases "SetConfig (Some bad_key) None conf_srtp p")
  show ?thesis
    using p n rq conf_srtp_fields(1) NewMediaPortWith_conf [OF p] NewMediaPortWith_session [OF p]
      SetConfig_srtp_failure [OF n conf_srtp_fields(1) rq]
    by simp
qed

lemma SetConfig_keeps_open:
  "\<not> closed p \<Longrightarrow> SetConfig srtp ows c p = (r, q) \<Longrightarrow> \<not> closed q"
  using setupOutput_fields
  by (auto simp: SetConfig_def Let_def setupInput_fields split: option.splits prod.splits)

lemma SetConfig_plain_ok:
  "\<not> closed p \<Longrightarrow> fst (SetConfig None None conf_plain p) = None"
  by (auto simp: SetConfig_def Let_def setupOutput_def Swap_def conf_plain_fields
        split: option.splits prod.splits if_splits)

lemma first_SetConfig:
  assumes "NewMediaPortWith None None 8000 = Inr p"
    and "SetConfig None None conf_plain p = (r, q)"
  shows "\<not> closed q" and "sessions q = [\<lparr>secure = False, sess_closed = False\<rparr>]"
    and "sess q = Some 0"
proof -
  have n: "\<not> closed p"
    using NewMediaPortWith_closed [OF assms(1)] .
  show "\<not> closed q"
    using SetConfig_keeps_open [OF n assms(2)] .
  show "sessions q = [\<lparr>secure = False, sess_closed = False\<rparr>]" "sess q = Some 0"
    using SetConfig_session_created [OF n _ assms(2)] NewMediaPortWith_session [OF assms(1)]
    by (simp_all add: conf_plain_fields)
qed

text \<open>
  C7, as stated, fails. On a fresh port two successful calls of \<^verbatim>\<open>SetConfig\<close> leave
  the session of the first call, at index 0 of the store, open, while the port's active
  session is the one of the second call.
\<close>

theorem SetConfig_prior_session_counterexample:
  "(case NewMediaPortWith None None 8000 of
      Inl e \<Rightarrow> False
    | Inr p \<Rightarrow>
        sess (snd (SetConfig None None conf_plain p)) = Some 0 \<and>
        fst (SetConfig None None conf_plain (snd (SetConfig None None conf_plain p))) = None \<and>
        sess (snd (SetConfig None None conf_plain (snd (SetConfig None None conf_plain p)))) = Some 1 \<and>
        \<not> sess_closed
            (sessions (snd (SetConfig None None conf_plain (snd (SetConfig None None conf_plain p)))) ! 0))"
proof -
  obtain p where p: "NewMediaPortWith None None 8000 = Inr p"
    using NewMediaPortWith_ok by blast
  obtain r1 q1 where 1: "SetConfig None None conf_plain p = (r1, q1)"
    by (cases "SetConfig None None conf_plain p")
  obtain r2 q2 where 2: "SetConfig None None conf_plain q1 = (r2, q2)"
    by (cases "SetConfig None None conf_plain q1")
  have s1: "sessions q1 = [\<lparr>secure = False, sess_closed = False\<rparr>]" "sess q1 = Some 0"
    and n1: "\<not> closed q1"
    using first_SetConfig [OF p 1] by simp_all
  have s2: "sessions q2 = [\<lparr>secure = False, sess_closed = False\<rparr>, \<lparr>secure = False, sess_closed = False\<rparr>]"
      "sess q2 = Some 1"
    using SetConfig_session_created [OF n1 _ 2] s1
    by (simp_all add: conf_plain_fields)
  have r2: "r2 = None"
    using 2 SetConfig_plain_ok [OF n1] by simp
  show ?thesis
    using p 1 2 s1 s2 r2 by simp
qed

text \<open>
  C7, amended. When \<^verbatim>\<open>SetConfig\<close> is called on an open port that has an active
  session and the construction of the new session succeeds, the new session is
  appended to the store, open, and becomes the port's active session; the prior
  session is left as it was, so \<^verbatim>\<open>SetConfig\<close> does not close it.
\<close>

theorem SetConfig_replaces_session:
  assumes "\<not> closed p" and "sess p = Some i" and "i < length (sessions p)"
    and "Crypto c = None \<or> srtp = None"
    and "SetConfig srtp ows c p = (r, q)"
  shows "sess q = Some (length (sessions p)) \<and> sess q \<noteq> sess p \<and>
         sessions q = sessions p @ [\<lparr>secure = (Crypto c \<noteq> None), sess_closed = False\<rparr>] \<and>
         sessions q ! i = sessions p ! i \<and>
         \<not> sess_closed (sessions q ! length (sessions p))"
  using SetConfig_session_created [OF assms(1) assms(4) assms(5)] assms(2) assms(3)
  by (simp add: nth_append)

theorem SetConfig_replaces_session_witness:
  "(case NewMediaPortWith None None 8000 of
      Inl e \<Rightarrow> False
    | Inr p \<Rightarrow>
        \<not> closed (snd (SetConfig None None conf_plain p)) \<and>
        sess (snd (SetConfig None None conf_plain p)) = Some 0 \<and>
        0 < length (sessions (snd (SetConfig None None conf_plain p))) \<and>
        sess (snd (SetConfig None None conf_srtp (snd (SetConfig None None conf_plain p)))) = Some 1 \<and>
        sessions (snd (SetConfig None None conf_srtp (snd (SetConfig None None conf_plain p))))
          = [\<lparr>secure = False, sess_closed = False\<rparr>, \<lparr>secure = True, sess_closed = False\<rparr>])"
proof -
  obtain p where p: "NewMediaPortWith None None 8000 = Inr p"
    using NewMediaPortWith_ok by blast
  obtain r1 q1 where 1: "SetConfig None None conf_plain p = (r1, q1)"
    by (cases "SetConfig None None conf_plain p")
  obtain r2 q2 where 2: "SetConfig None None conf_srtp q1 = (r2, q2)"
    by (cases "SetConfig None None conf_srtp q1")
  have s1: "sessions q1 = [\<lparr>secure = False, sess_closed = False\<rparr>]" and a: "sess q1 = Some 0"
    and n1: "\<not> closed q1"
    using first_SetConfig [OF p 1] by simp_all
  have l: "0 < length (sessions q1)"
    using s1 by simp
  have k: "Crypto conf_srtp = None \<or> (None :: error option) = None"
    by simp
  show ?thesis
    using p 1 2 s1 a n1 conf_srtp_fields(1) SetConfig_replaces_session [OF n1 a l k 2]
    by simp
qed

subsection \<open>The accept loop starts a read loop per stream\<close>

lemma rtpLoop_from_started:
  "al_started (snd (rtpLoop_from st rs)) = al_started st @ accepted rs \<and>
   al_Streams (snd (rtpLoop_from st rs)) = al_Streams st + of_nat (length (accepted rs)) \<and>
   al_mediaReceived (snd (rtpLoop_from st rs)) = (al_mediaReceived st \<or> accepted rs \<noteq> []) \<and>
   map snd (filter (\<lambda>e. fst e = (Infow, ''accepting RTP stream'')) (al_log (snd (rtpLoop_from st rs))))
     = map snd (filter (\<lambda>e. fst e = (Infow, ''accepting RTP stream'')) (al_log st))
       @ map (\<lambda>a. Some (snd a)) (accepted rs)"
proof (induction rs arbitrary: st)
  case Nil
  then show ?case by simp
next
  case (Cons r rs)
  show ?case
  proof (cases r)
    case (AcceptOK x ssrc)
    then show ?thesis
      using Cons.IH [of "st\<lparr>al_Streams := al_Streams st + 1, al_mediaReceived := True,
          al_log := al_log st @ [((Infow, ''accepting RTP stream''), Some ssrc)],
          al_started := al_started st @ [(x, ssrc)]\<rparr>"]
      by (simp add: algebra_simps)
  next
    case (AcceptFailed e)
    then show ?thesis by simp
  qed
qed

text \<open>
  The older revision of the accept loop does what C2 describes: it starts a read loop
  for the first accepted stream only.
\<close>

lemma rtpLoop_old_from_started:
  "al_started (snd (rtpLoop_old_from first st rs))
     = al_started st @ (if first then take 1 (accepted rs) else [])"
proof (induction rs arbitrary: first st)
  case Nil
  then show ?case by simp
next
  case (Cons r rs)
  then show ?case
    by (cases r) (simp_all add: Let_def)
qed

text \<open>
  C2, as stated, fails. On a fresh port the accept loop that is given two streams with
  different SSRCs starts two read loops, one for each.
\<close>

theorem rtpLoop_second_stream_counterexample:
  "(case NewMediaPortWith None None 8000 of
      Inl e \<Rightarrow> False
    | Inr p \<Rightarrow>
        al_started (snd (rtpLoop p [AcceptOK 1 4660, AcceptOK 2 22136]))
          = [(1, 4660), (2, 22136)])"
proof -
  obtain p where p: "NewMediaPortWith None None 8000 = Inr p"
    using NewMediaPortWith_ok by blast
  show ?thesis
    using p by (simp add: rtpLoop_def)
qed

text \<open>
  C2, amended. For every active RTP session the accept loop starts a read loop for
  every stream it accepts, the first and every later one alike, in the order of
  acceptance; each of them is logged as accepted with its SSRC and counted in the
  stream counter, and the media-received fuse is broken as soon as one stream is
  accepted. No accepted stream is left without a read loop.
\<close>

theorem rtpLoop_starts_every_stream:
  "al_started (snd (rtpLoop p rs)) = accepted rs \<and>
   al_Streams (snd (rtpLoop p rs)) = Streams (stats p) + of_nat (length (accepted rs)) \<and>
   al_mediaReceived (snd (rtpLoop p rs)) = (mediaReceived p \<or> accepted rs \<noteq> []) \<and>
   map snd (filter (\<lambda>e. fst e = (Infow, ''accepting RTP stream'')) (al_log (snd (rtpLoop p rs))))
     = map (\<lambda>a. Some (snd a)) (accepted rs)"
  using rtpLoop_from_started
    [of "\<lparr>al_Streams = Streams (stats p), al_mediaReceived = mediaReceived p,
           al_log = [], al_started = []\<rparr>" rs]
  by (simp add: rtpLoop_def)

theorem rtpLoop_starts_every_stream_witness:
  "(case NewMediaPortWith None None 8000 of
      Inl e \<Rightarrow> False
    | Inr p \<Rightarrow>
        al_started (snd (rtpLoop p
          [AcceptOK 1 4660, AcceptOK 2 22136,
           AcceptFailed \<lparr>is_net_ErrClosed = True, err_text = ''use of closed network connection''\<rparr>,
           AcceptOK 3 1]))
          = [(1, 4660), (2, 22136)] \<and>
        al_mediaReceived (snd (rtpLoop p
          [AcceptOK 1 4660, AcceptOK 2 22136,
           AcceptFailed \<lparr>is_net_ErrClosed = True, err_text = ''use of closed network connection''\<rparr>,
           AcceptOK 3 1])))"
proof -
  obtain p where p: "NewMediaPortWith None None 8000 = Inr p"
    using NewMediaPortWith_ok by blast
  show ?thesis
    using p rtpLoop_starts_every_stream
      [of p "[AcceptOK 1 4660, AcceptOK 2 22136,
              AcceptFailed \<lparr>is_net_ErrClosed = True, err_text = ''use of closed network connection''\<rparr>,
              AcceptOK 3 1]"]
    by simp
qed

subsection \<open>The read loop: oversize packets\<close>

lemma read_packet_oversize:
  "n > MTUSize \<Longrightarrow>
     read_packet st n h =
       (False, st\<lparr>rl_packetCount := rl_packetCount st + 1,
                  rl_stats := (rl_stats st)\<lparr>Packets := Packets (rl_stats st) + 1,
                                             IgnoredPackets := IgnoredPackets (rl_stats st) + 1\<rparr>,
                  overflow := True\<rparr>)"
  by (simp add: read_packet_def Let_def ignore_packet_def)

lemma read_packet_dispatched:
  "dispatched (snd (read_packet st n h)) =
     (if n \<le> MTUSize \<and> h \<noteq> PtrNil \<and> h \<noteq> IfaceNil then dispatched st @ [n] else dispatched st)"
  by (cases h) (auto simp: read_packet_def Let_def ignore_packet_def split: option.splits)

lemma read_packet_never_logs_oversize:
  "(Errorw, ''RTP packet is larger than MTU limit'') \<notin> set (rl_log st) \<Longrightarrow>
     (Errorw, ''RTP packet is larger than MTU limit'') \<notin> set (rl_log (snd (read_packet st n h)))"
  by (cases h) (auto simp: read_packet_def Let_def ignore_packet_def split: option.splits)

text \<open>
  Whatever the loop reads, it never writes the log entry about an oversize packet, and
  it passes no oversize packet to a handler.
\<close>

lemma rtpReadLoop_from_never_logs_oversize:
  "(Errorw, ''RTP packet is larger than MTU limit'') \<notin> set (rl_log st) \<Longrightarrow>
     (Errorw, ''RTP packet is larger than MTU limit'') \<notin> set (rl_log (snd (rtpReadLoop_from st rs)))"
proof (induction rs arbitrary: st)
  case Nil
  then show ?case by simp
next
  case (Cons r rs)
  show ?case
  proof (cases r)
    case (ReadOK n h)
    then show ?thesis
      using Cons.IH [of "snd (read_packet st n h)"] read_packet_never_logs_oversize [OF Cons.prems, of n h]
      by (auto split: prod.splits bool.splits)
  qed (use Cons.prems in simp_all)
qed

lemma rtpReadLoop_from_dispatched_size:
  "list_all (\<lambda>n. n \<le> MTUSize) (dispatched st) \<Longrightarrow>
     list_all (\<lambda>n. n \<le> MTUSize) (dispatched (snd (rtpReadLoop_from st rs)))"
proof (induction rs arbitrary: st)
  case Nil
  then show ?case by simp
next
  case (Cons r rs)
  show ?case
  proof (cases r)
    case (ReadOK n h)
    have "list_all (\<lambda>n. n \<le> MTUSize) (dispatched (snd (read_packet st n h)))"
      using Cons.prems by (simp add: read_packet_dispatched)
    then show ?thesis
      using Cons.IH [of "snd (read_packet st n h)"] ReadOK
      by (auto split: prod.splits bool.splits)
  qed (use Cons.prems in simp_all)
qed

text \<open>
  C3. The claim holds for the count and the drop and fails for the log. A stream whose
  first packet has 1501 bytes: the loop counts the packet as ignored, passes nothing
  to the handler and stays in the loop, but its log is empty. The flag
  \<^verbatim>\<open>overflow\<close> is set immediately before it is tested, so the entry is never written,
  not even for the first oversize packet of the stream.
\<close>

theorem rtpReadLoop_oversize_not_logged:
  "fst (rtpReadLoop p [ReadOK 1501 h]) = ReadBlocked \<and>
   rl_log (snd (rtpReadLoop p [ReadOK 1501 h])) = [] \<and>
   dispatched (snd (rtpReadLoop p [ReadOK 1501 h])) = [] \<and>
   IgnoredPackets (rl_stats (snd (rtpReadLoop p [ReadOK 1501 h]))) = IgnoredPackets (stats p) + 1"
  by (simp add: rtpReadLoop_def read_packet_oversize MTUSize_def)

subsection \<open>The read loop: consecutive handler errors\<close>

lemma take_run_False: "k < n \<Longrightarrow> take n (replicate k True @ False # ys) \<noteq> replicate n True"
proof
  assume k: "k < n" and e: "take n (replicate k True @ False # ys) = replicate n True"
  have "take n (replicate k True @ False # ys) ! k = False"
    using k by (simp add: nth_append)
  moreover have "replicate n True ! k = True"
    using k by simp
  ultimately show False using e by simp
qed

lemma consecutive_errors_skip:
  "k < n \<Longrightarrow> consecutive_errors n (replicate k True @ False # ys) = consecutive_errors n ys"
proof (induction k)
  case 0
  then show ?case using take_run_False [of 0 n ys] by simp
next
  case (Suc k)
  then show ?case using take_run_False [of "Suc k" n ys] by simp
qed

lemma consecutive_errors_full: "consecutive_errors n (replicate n True @ ys)"
  by (cases n; cases ys) simp_all

lemma consecutive_errors_short: "k < n \<Longrightarrow> \<not> consecutive_errors n (replicate k True)"
proof (induction k)
  case 0
  then show ?case by simp
next
  case (Suc k)
  have "length (True # replicate k True) \<noteq> length (replicate n True)"
    using Suc.prems by simp
  then have "True # replicate k True \<noteq> replicate n True"
    by metis
  then show ?case using Suc by simp
qed

text \<open>The recursive test is the existence of a block of \<open>n\<close> errors in the sequence.\<close>

lemma consecutive_errors_block:
  "consecutive_errors n xs \<longleftrightarrow> (\<exists>pre post. xs = pre @ replicate n True @ post)"
proof
  show "consecutive_errors n xs \<Longrightarrow> \<exists>pre post. xs = pre @ replicate n True @ post"
  proof (induction xs)
    case Nil
    then show ?case by simp
  next
    case (Cons x xs)
    show ?case
    proof (cases "take n (x # xs) = replicate n True")
      case True
      have "x # xs = [] @ take n (x # xs) @ drop n (x # xs)"
        by simp
      then show ?thesis
        unfolding True by blast
    next
      case False
      then obtain pre post where "xs = pre @ replicate n True @ post"
        using Cons by auto
      then have "x # xs = (x # pre) @ replicate n True @ post"
        by simp
      then show ?thesis by blast
    qed
  qed
next
  assume "\<exists>pre post. xs = pre @ replicate n True @ post"
  then obtain pre post where xs: "xs = pre @ replicate n True @ post"
    by blast
  have "consecutive_errors n (pre @ replicate n True @ post)"
  proof (induction pre)
    case Nil
    then show ?case using consecutive_errors_full [of n post] by simp
  next
    case (Cons a pre)
    then show ?case by simp
  qed
  then show "consecutive_errors n xs"
    using xs by simp
qed

lemma dispatch_errors_bad_frames:
  "dispatch_errors (replicate k bad_frame @ rs) = replicate k True @ dispatch_errors rs"
  by (induction k) (simp_all add: bad_frame_def MTUSize_def)

lemma read_packet_ignored:
  "n > MTUSize \<or> h = PtrNil \<or> h = IfaceNil \<Longrightarrow>
     \<not> fst (read_packet st n h) \<and> errorCnt (snd (read_packet st n h)) = errorCnt st"
  by (auto simp: read_packet_def Let_def ignore_packet_def)

lemma read_packet_success:
  "n \<le> MTUSize \<Longrightarrow>
     \<not> fst (read_packet st n (Loaded name None)) \<and>
     errorCnt (snd (read_packet st n (Loaded name None))) = 0"
  by (simp add: read_packet_def Let_def)

lemma read_packet_error:
  "n \<le> MTUSize \<Longrightarrow>
     fst (read_packet st n (Loaded name (Some e))) = (maxErrors \<le> errorCnt st + 1) \<and>
     errorCnt (snd (read_packet st n (Loaded name (Some e)))) = errorCnt st + 1"
  by (simp add: read_packet_def Let_def)

lemma rtpReadLoop_from_ReadOK:
  "rtpReadLoop_from st (ReadOK n h # rest) =
     (if fst (read_packet st n h) then (ExitKilled, snd (read_packet st n h))
      else rtpReadLoop_from (snd (read_packet st n h)) rest)"
  by (simp split: prod.splits)

lemma read_loop_killed:
  "0 \<le> errorCnt st \<Longrightarrow> errorCnt st < maxErrors \<Longrightarrow>
   fst (rtpReadLoop_from st rs) = ExitKilled \<longleftrightarrow>
     consecutive_errors 50 (replicate (nat (errorCnt st)) True @ dispatch_errors rs)"
proof (induction rs arbitrary: st)
  case Nil
  then show ?case using consecutive_errors_short [of "nat (errorCnt st)" 50]
    by (simp add: maxErrors_def)
next
  case (Cons r rs)
  show ?case
  proof (cases r)
    case ReadEOF
    then show ?thesis using Cons.prems consecutive_errors_short [of "nat (errorCnt st)" 50]
      by (simp add: maxErrors_def)
  next
    case (ReadFailed e)
    then show ?thesis using Cons.prems consecutive_errors_short [of "nat (errorCnt st)" 50]
      by (simp add: maxErrors_def)
  next
    case (ReadOK n h)
    let ?k = "nat (errorCnt st)"
    let ?st = "snd (read_packet st n h)"
    have short: "?k < 50"
      using Cons.prems by (simp add: maxErrors_def)
    show ?thesis
    proof (cases "n > MTUSize \<or> h = PtrNil \<or> h = IfaceNil")
      case True
      have d: "dispatch_errors (r # rs) = dispatch_errors rs"
        using True ReadOK by (cases h) auto
      have "fst (rtpReadLoop_from st (r # rs)) = fst (rtpReadLoop_from ?st rs)"
        using read_packet_ignored [OF True, of st] ReadOK
        by (simp only: rtpReadLoop_from_ReadOK if_False)
      also have "(\<dots> = ExitKilled) \<longleftrightarrow>
          consecutive_errors 50 (replicate (nat (errorCnt ?st)) True @ dispatch_errors rs)"
        using Cons.IH [of ?st] Cons.prems read_packet_ignored [OF True, of st] by simp
      finally show ?thesis
        using d read_packet_ignored [OF True, of st] by simp
    next
      case False
      then obtain name res where h: "h = Loaded name res" and n: "n \<le> MTUSize"
        by (cases h) auto
      show ?thesis
      proof (cases res)
        case None
        have d: "dispatch_errors (r # rs) = False # dispatch_errors rs"
          using ReadOK h n None by simp
        have 0: "\<not> fst (read_packet st n h)" "errorCnt ?st = 0"
          using read_packet_success [OF n, of st name] h None by simp_all
        have "fst (rtpReadLoop_from st (r # rs)) = fst (rtpReadLoop_from ?st rs)"
          using 0 ReadOK by (simp only: rtpReadLoop_from_ReadOK if_False)
        also have "(\<dots> = ExitKilled) \<longleftrightarrow> consecutive_errors 50 (dispatch_errors rs)"
          using Cons.IH [of ?st] 0 by (simp add: maxErrors_def)
        finally show ?thesis
          using d consecutive_errors_skip [OF short, of "dispatch_errors rs"] by simp
      next
        case (Some e)
        have d: "dispatch_errors (r # rs) = True # dispatch_errors rs"
          using ReadOK h n Some by simp
        have 1: "fst (read_packet st n h) = (maxErrors \<le> errorCnt st + 1)"
            "errorCnt ?st = errorCnt st + 1"
          using read_packet_error [OF n, of st name e] h Some by simp_all
        have app: "replicate ?k True @ True # dispatch_errors rs
            = replicate (Suc ?k) True @ dispatch_errors rs"
          by (simp add: replicate_app_Cons_same)
        show ?thesis
        proof (cases "maxErrors \<le> errorCnt st + 1")
          case True
          then have k: "Suc ?k = 50"
            using Cons.prems by (simp add: maxErrors_def)
          have "fst (rtpReadLoop_from st (r # rs)) = ExitKilled"
            using 1 True ReadOK by (simp only: rtpReadLoop_from_ReadOK if_True fst_conv)
          moreover have "consecutive_errors 50 (replicate ?k True @ dispatch_errors (r # rs))"
            unfolding d app k by (rule consecutive_errors_full)
          ultimately show ?thesis
            by blast
        next
          case False
          have s: "nat (errorCnt ?st) = Suc ?k"
            using 1 Cons.prems by simp
          have "fst (rtpReadLoop_from st (r # rs)) = fst (rtpReadLoop_from ?st rs)"
            using 1 False ReadOK by (simp only: rtpReadLoop_from_ReadOK if_False)
          also have "(\<dots> = ExitKilled) \<longleftrightarrow>
              consecutive_errors 50 (replicate (nat (errorCnt ?st)) True @ dispatch_errors rs)"
            using Cons.IH [of ?st] 1 False Cons.prems by simp
          also have "replicate (nat (errorCnt ?st)) True @ dispatch_errors rs
              = replicate ?k True @ dispatch_errors (r # rs)"
            unfolding d app s ..
          finally show ?thesis .
        qed
      qed
    qed
  qed
qed


lemma rtpReadLoop_from_exited:
  "fst (rtpReadLoop_from st rs) \<noteq> ReadBlocked \<Longrightarrow>
     rtpReadLoop_from st (rs @ rs2) = rtpReadLoop_from st rs"
proof (induction rs arbitrary: st)
  case Nil
  then show ?case by simp
next
  case (Cons r rs)
  then show ?case
    by (cases r) (auto split: prod.splits bool.splits)
qed

text \<open>
  C5. The read loop exits because of handler errors exactly when the outcomes of its
  dispatches contain 50 consecutive errors, with no successful dispatch in between;
  it then reads nothing more. A successful dispatch sets the error counter to zero.
  So a run of fewer than 50 errors that is ended by a success never ends the loop.
\<close>

theorem rtpReadLoop_consecutive_errors:
  "(fst (rtpReadLoop p rs) = ExitKilled \<longleftrightarrow> consecutive_errors 50 (dispatch_errors rs)) \<and>
   (fst (rtpReadLoop p rs) = ExitKilled \<longrightarrow> rtpReadLoop p (rs @ rs2) = rtpReadLoop p rs) \<and>
   (n \<le> MTUSize \<longrightarrow> errorCnt (snd (read_packet st n (Loaded name None))) = 0)"
proof -
  let ?st = "\<lparr>rl_packetCount = packetCount p, rl_stats = stats p, overflow = False,
              pipeline = [], errorCnt = 0, rl_log = [], dispatched = []\<rparr>"
  have "fst (rtpReadLoop_from ?st rs) = ExitKilled \<longleftrightarrow>
      consecutive_errors 50 (replicate (nat (errorCnt ?st)) True @ dispatch_errors rs)"
    by (rule read_loop_killed) (simp_all add: maxErrors_def)
  then have 1: "fst (rtpReadLoop p rs) = ExitKilled \<longleftrightarrow> consecutive_errors 50 (dispatch_errors rs)"
    by (simp add: rtpReadLoop_def)
  have 2: "fst (rtpReadLoop p rs) = ExitKilled \<longrightarrow> rtpReadLoop p (rs @ rs2) = rtpReadLoop p rs"
    using rtpReadLoop_from_exited [of ?st rs rs2] by (simp add: rtpReadLoop_def)
  show ?thesis
    using 1 2 read_packet_success by blast
qed

theorem rtpReadLoop_consecutive_errors_witness:
  "(case NewMediaPortWith None None 8000 of
      Inl e \<Rightarrow> False
    | Inr p \<Rightarrow>
        fst (rtpReadLoop p (replicate 50 bad_frame)) = ExitKilled \<and>
        rtpReadLoop p (replicate 50 bad_frame @ [ReadEOF]) = rtpReadLoop p (replicate 50 bad_frame) \<and>
        fst (rtpReadLoop p (replicate 49 bad_frame @ ReadOK 160 (Loaded ''mux'' None) # replicate 49 bad_frame))
          \<noteq> ExitKilled \<and>
        160 \<le> MTUSize \<and>
        errorCnt (snd (read_packet
          \<lparr>rl_packetCount = 49, rl_stats = zeroStats, overflow = False, pipeline = ''mux'',
           errorCnt = 49, rl_log = [], dispatched = []\<rparr> 160 (Loaded ''mux'' None))) = 0)"
proof -
  obtain p where p: "NewMediaPortWith None None 8000 = Inr p"
    using NewMediaPortWith_ok by blast
  let ?st = "\<lparr>rl_packetCount = 49, rl_stats = zeroStats, overflow = False, pipeline = ''mux'',
              errorCnt = 49, rl_log = [], dispatched = []\<rparr>"
  have m: "160 \<le> MTUSize"
    by (simp add: MTUSize_def)
  have d50: "dispatch_errors (replicate 50 bad_frame) = replicate 50 True"
    using dispatch_errors_bad_frames [of 50 "[]"] by simp
  have c50: "consecutive_errors 50 (dispatch_errors (replicate 50 bad_frame))"
    unfolding d50 using consecutive_errors_full [of 50 "[]"] by simp
  have k: "fst (rtpReadLoop p (replicate 50 bad_frame)) = ExitKilled"
    using rtpReadLoop_consecutive_errors [of p "replicate 50 bad_frame" "[ReadEOF]" 160 ?st "''mux''"] c50
    by blast
  have e: "rtpReadLoop p (replicate 50 bad_frame @ [ReadEOF]) = rtpReadLoop p (replicate 50 bad_frame)"
    using rtpReadLoop_consecutive_errors [of p "replicate 50 bad_frame" "[ReadEOF]" 160 ?st "''mux''"] k
    by blast
  have z: "errorCnt (snd (read_packet ?st 160 (Loaded ''mux'' None))) = 0"
    using rtpReadLoop_consecutive_errors [of p "replicate 50 bad_frame" "[ReadEOF]" 160 ?st "''mux''"] m
    by blast
  let ?rs = "replicate 49 bad_frame @ ReadOK 160 (Loaded ''mux'' None) # replicate 49 bad_frame"
  have "dispatch_errors ?rs = replicate 49 True @ False # replicate 49 True"
    using dispatch_errors_bad_frames [of 49 "[]"] m
    by (simp add: dispatch_errors_bad_frames)
  then have "\<not> consecutive_errors 50 (dispatch_errors ?rs)"
    using consecutive_errors_skip [of 49 50 "replicate 49 True"] consecutive_errors_short [of 49 50]
    by simp
  then have n: "fst (rtpReadLoop p ?rs) \<noteq> ExitKilled"
    using rtpReadLoop_consecutive_errors [of p ?rs "[]" 160 ?st "''mux''"] by blast
  show ?thesis
    using p k e n m z by simp
qed

subsection \<open>The timeout watchdog fires once\<close>




text \<open>
  A packet read by the read loop is one step of the packet counter, whatever becomes of
  the packet.
\<close>

lemma read_packet_counts:
  "rl_packetCount (snd (read_packet st n h)) = rl_packetCount st + 1"
  by (cases h) (auto simp: read_packet_def Let_def ignore_packet_def split: option.splits)

subsection \<open>The watchdog and the history of the port\<close>






















end
